theory Spec2Isabelle
  imports Complex_Main
begin

text \<open>
  A model of \<open>Headroom.js\<close>: the constructor, the six transitions \<open>pin\<close>, \<open>unpin\<close>,
  \<open>top\<close>, \<open>notTop\<close>, \<open>bottom\<close>, \<open>notBottom\<close>, the predicates of the update cycle,
  \<open>update\<close> itself, \<open>freeze\<close> and \<open>unfreeze\<close>. Each method takes the instance and
  returns the instance it leaves behind. \<open>init\<close>, \<open>attachEvent\<close> and \<open>destroy\<close> (timers,
  event listeners, the debouncer) are outside the model.
\<close>

section \<open>JavaScript numbers\<close>

text \<open>
  Scroll positions, heights, the offset and the tolerances are JavaScript numbers.
  The model keeps the values that decide how a comparison goes: a finite value, the two
  infinities and NaN. Finite arithmetic is exact (rounding of doubles is left out; every
  property below compares the same computed expression on both sides, so rounding does
  not enter). A value that is \<open>undefined\<close> converts to NaN in arithmetic and
  comparisons and is represented by \<open>NaN\<close>.
\<close>

datatype jsnum = Fin real | PInf | NInf | NaN

text \<open>\<open>a < b\<close>: false as soon as one side is NaN.\<close>

fun js_lt :: "jsnum \<Rightarrow> jsnum \<Rightarrow> bool" where
  "js_lt (Fin a) (Fin b) = (a < b)"
| "js_lt (Fin a) PInf = True"
| "js_lt NInf (Fin b) = True"
| "js_lt NInf PInf = True"
| "js_lt _ _ = False"

text \<open>\<open>a <= b\<close>: false when one side is NaN, otherwise the negation of \<open>b < a\<close>.\<close>

fun js_le :: "jsnum \<Rightarrow> jsnum \<Rightarrow> bool" where
  "js_le NaN _ = False"
| "js_le _ NaN = False"
| "js_le a b = (\<not> js_lt b a)"

text \<open>\<open>a > b\<close> and \<open>a >= b\<close> are the same comparisons with the sides exchanged.\<close>

definition js_gt :: "jsnum \<Rightarrow> jsnum \<Rightarrow> bool" where
  "js_gt a b = js_lt b a"

definition js_ge :: "jsnum \<Rightarrow> jsnum \<Rightarrow> bool" where
  "js_ge a b = js_le b a"

text \<open>\<open>a === b\<close> on numbers: NaN equals nothing, itself included.\<close>

fun js_eq :: "jsnum \<Rightarrow> jsnum \<Rightarrow> bool" where
  "js_eq NaN _ = False"
| "js_eq _ NaN = False"
| "js_eq a b = (a = b)"

fun js_add :: "jsnum \<Rightarrow> jsnum \<Rightarrow> jsnum" where
  "js_add NaN _ = NaN"
| "js_add _ NaN = NaN"
| "js_add (Fin a) (Fin b) = Fin (a + b)"
| "js_add PInf NInf = NaN"
| "js_add NInf PInf = NaN"
| "js_add PInf _ = PInf"
| "js_add _ PInf = PInf"
| "js_add NInf _ = NInf"
| "js_add _ NInf = NInf"

fun js_neg :: "jsnum \<Rightarrow> jsnum" where
  "js_neg (Fin a) = Fin (- a)"
| "js_neg PInf = NInf"
| "js_neg NInf = PInf"
| "js_neg NaN = NaN"

definition js_sub :: "jsnum \<Rightarrow> jsnum \<Rightarrow> jsnum" where
  "js_sub a b = js_add a (js_neg b)"

text \<open>\<open>Math.abs\<close>.\<close>

fun js_abs :: "jsnum \<Rightarrow> jsnum" where
  "js_abs (Fin a) = Fin \<bar>a\<bar>"
| "js_abs PInf = PInf"
| "js_abs NInf = PInf"
| "js_abs NaN = NaN"


section \<open>The widget's data\<close>

text \<open>The tolerance object \<open>{ down, up }\<close>, and the property name that indexes it.\<close>

record tolerance_obj =
  down :: jsnum
  up :: jsnum

datatype direction = Down | Up

fun tolerance_at :: "tolerance_obj \<Rightarrow> direction \<Rightarrow> jsnum" where
  "tolerance_at t Down = down t"
| "tolerance_at t Up = up t"

text \<open>The \<open>tolerance\<close> option is a number or an object.\<close>

datatype tolerance_option = Scalar jsnum | Object tolerance_obj

text \<open>\<open>options.classes\<close>: the class name used for each state.\<close>

record class_names =
  cls_frozen :: string
  cls_pinned :: string
  cls_unpinned :: string
  cls_top :: string
  cls_notTop :: string
  cls_bottom :: string
  cls_notBottom :: string
  cls_initial :: string

text \<open>
  The six optional callbacks. A callback's body is the caller's code; the model records
  each invocation in the order it happens and takes the body to leave the widget alone.
\<close>

datatype callback = OnPin | OnUnpin | OnTop | OnNotTop | OnBottom | OnNotBottom

text \<open>
  The options after \<open>extend(options, Headroom.options)\<close> has merged the defaults in.
  A callback option is \<open>True\<close> when a function was given (a truthy value).
\<close>

record options =
  opt_tolerance :: tolerance_option
  opt_offset :: jsnum
  opt_classes :: class_names
  opt_onPin :: bool
  opt_onUnpin :: bool
  opt_onTop :: bool
  opt_onNotTop :: bool
  opt_onBottom :: bool
  opt_onNotBottom :: bool

text \<open>
  What the scroll source answers during one tick: \<open>scrollY()\<close>, \<open>height()\<close> and
  \<open>scrollHeight()\<close>. \<open>update\<close> asks for the two heights twice in a tick; the source
  is taken to give the same answer both times.
\<close>

record reading =
  scrollY :: jsnum
  height :: jsnum
  scrollHeight :: jsnum

text \<open>
  The instance. \<open>classList\<close> is the class list of \<open>this.elem\<close>, an ordered set of
  tokens; \<open>calls\<close> is the log of callback invocations, oldest first. The fields
  \<open>scroller\<close> and \<open>scrollSource\<close> are not kept: each tick is handed the scroll
  source's answers as a \<open>reading\<close>.
\<close>

record headroom =
  lastKnownScrollY :: jsnum
  classList :: "string list"
  tolerance :: tolerance_obj
  classes :: class_names
  offset :: jsnum
  initialised :: bool
  onPin :: bool
  onUnpin :: bool
  onTop :: bool
  onNotTop :: bool
  onBottom :: bool
  onNotBottom :: bool
  frozen :: bool
  calls :: "callback list"


section \<open>Class list operations\<close>

text \<open>
  \<open>contains\<close>, \<open>add\<close> and \<open>remove\<close> of the element's token list: \<open>add\<close> appends a
  token that is not there yet, \<open>remove\<close> takes a token out wherever it stands.
\<close>

definition contains :: "string list \<Rightarrow> string \<Rightarrow> bool" where
  "contains cl c = (c \<in> set cl)"

definition add :: "string list \<Rightarrow> string \<Rightarrow> string list" where
  "add cl c = (if c \<in> set cl then cl else cl @ [c])"

definition remove :: "string list \<Rightarrow> string \<Rightarrow> string list" where
  "remove cl c = filter (\<lambda>x. x \<noteq> c) cl"

text \<open>\<open>if (this.onX) { this.onX.call(this); }\<close>\<close>

definition fire :: "bool \<Rightarrow> callback \<Rightarrow> headroom \<Rightarrow> headroom" where
  "fire registered cb st = (if registered then st\<lparr>calls := calls st @ [cb]\<rparr> else st)"


section \<open>Construction\<close>

definition normalizeTolerance :: "tolerance_option \<Rightarrow> tolerance_obj" where
  "normalizeTolerance t =
     (case t of Object ob \<Rightarrow> ob | Scalar n \<Rightarrow> \<lparr>down = n, up = n\<rparr>)"

text \<open>
  The constructor, given the class list of the element and the merged options. It has no
  \<open>throw\<close> and no test of any option.
\<close>

definition Headroom :: "string list \<Rightarrow> options \<Rightarrow> headroom" where
  "Headroom elem opts =
     \<lparr>lastKnownScrollY = Fin 0,
      classList = elem,
      tolerance = normalizeTolerance (opt_tolerance opts),
      classes = opt_classes opts,
      offset = opt_offset opts,
      initialised = False,
      onPin = opt_onPin opts,
      onUnpin = opt_onUnpin opts,
      onTop = opt_onTop opts,
      onNotTop = opt_onNotTop opts,
      onBottom = opt_onBottom opts,
      onNotBottom = opt_onNotBottom opts,
      frozen = False,
      calls = []\<rparr>"

text \<open>\<open>Headroom.options\<close>, the defaults: no callback is given.\<close>

definition default_classes :: class_names where
  "default_classes =
     \<lparr>cls_frozen = ''headroom--frozen'',
      cls_pinned = ''headroom--pinned'',
      cls_unpinned = ''headroom--unpinned'',
      cls_top = ''headroom--top'',
      cls_notTop = ''headroom--not-top'',
      cls_bottom = ''headroom--bottom'',
      cls_notBottom = ''headroom--not-bottom'',
      cls_initial = ''headroom''\<rparr>"

definition Headroom_options :: options where
  "Headroom_options =
     \<lparr>opt_tolerance = Object \<lparr>down = Fin 0, up = Fin 0\<rparr>,
      opt_offset = Fin 0,
      opt_classes = default_classes,
      opt_onPin = False,
      opt_onUnpin = False,
      opt_onTop = False,
      opt_onNotTop = False,
      opt_onBottom = False,
      opt_onNotBottom = False\<rparr>"


section \<open>Transitions\<close>

definition unpin :: "headroom \<Rightarrow> headroom" where
  "unpin st =
     (if contains (classList st) (cls_pinned (classes st))
         \<or> \<not> contains (classList st) (cls_unpinned (classes st))
      then fire (onUnpin st) OnUnpin
             (st\<lparr>classList :=
                  remove (add (classList st) (cls_unpinned (classes st)))
                         (cls_pinned (classes st))\<rparr>)
      else st)"

definition pin :: "headroom \<Rightarrow> headroom" where
  "pin st =
     (if contains (classList st) (cls_unpinned (classes st))
      then fire (onPin st) OnPin
             (st\<lparr>classList :=
                  add (remove (classList st) (cls_unpinned (classes st)))
                      (cls_pinned (classes st))\<rparr>)
      else st)"

definition top_headroom :: "headroom \<Rightarrow> headroom" where
  "top_headroom st =
     (if \<not> contains (classList st) (cls_top (classes st))
      then fire (onTop st) OnTop
             (st\<lparr>classList :=
                  remove (add (classList st) (cls_top (classes st)))
                         (cls_notTop (classes st))\<rparr>)
      else st)"

definition notTop :: "headroom \<Rightarrow> headroom" where
  "notTop st =
     (if \<not> contains (classList st) (cls_notTop (classes st))
      then fire (onNotTop st) OnNotTop
             (st\<lparr>classList :=
                  remove (add (classList st) (cls_notTop (classes st)))
                         (cls_top (classes st))\<rparr>)
      else st)"

definition bottom :: "headroom \<Rightarrow> headroom" where
  "bottom st =
     (if \<not> contains (classList st) (cls_bottom (classes st))
      then fire (onBottom st) OnBottom
             (st\<lparr>classList :=
                  remove (add (classList st) (cls_bottom (classes st)))
                         (cls_notBottom (classes st))\<rparr>)
      else st)"

definition notBottom :: "headroom \<Rightarrow> headroom" where
  "notBottom st =
     (if \<not> contains (classList st) (cls_notBottom (classes st))
      then fire (onNotBottom st) OnNotBottom
             (st\<lparr>classList :=
                  remove (add (classList st) (cls_notBottom (classes st)))
                         (cls_bottom (classes st))\<rparr>)
      else st)"


section \<open>The update cycle\<close>

definition isOutOfBounds :: "reading \<Rightarrow> jsnum \<Rightarrow> bool" where
  "isOutOfBounds src currentScrollY =
     (let pastTop = js_lt currentScrollY (Fin 0);
          pastBottom = js_gt (js_add currentScrollY (height src)) (scrollHeight src)
      in pastTop \<or> pastBottom)"

definition toleranceExceeded :: "headroom \<Rightarrow> jsnum \<Rightarrow> direction \<Rightarrow> bool" where
  "toleranceExceeded st currentScrollY dir =
     js_ge (js_abs (js_sub currentScrollY (lastKnownScrollY st)))
           (tolerance_at (tolerance st) dir)"

definition shouldUnpin :: "headroom \<Rightarrow> jsnum \<Rightarrow> bool \<Rightarrow> bool" where
  "shouldUnpin st currentScrollY tolExceeded =
     (let scrollingDown = js_gt currentScrollY (lastKnownScrollY st);
          pastOffset = js_ge currentScrollY (offset st)
      in scrollingDown \<and> pastOffset \<and> tolExceeded)"

definition shouldPin :: "headroom \<Rightarrow> jsnum \<Rightarrow> bool \<Rightarrow> bool" where
  "shouldPin st currentScrollY tolExceeded =
     (let scrollingUp = js_lt currentScrollY (lastKnownScrollY st);
          pastOffset = js_le currentScrollY (offset st)
      in (scrollingUp \<and> tolExceeded) \<or> pastOffset)"

text \<open>The local variable \<open>scrollDirection\<close> of \<open>update\<close>.\<close>

definition scrollDirection :: "headroom \<Rightarrow> jsnum \<Rightarrow> direction" where
  "scrollDirection st currentScrollY =
     (if js_gt currentScrollY (lastKnownScrollY st) then Down else Up)"

definition update :: "headroom \<Rightarrow> reading \<Rightarrow> headroom" where
  "update st src =
     (let currentScrollY = scrollY src;
          tolExceeded = toleranceExceeded st currentScrollY
                          (scrollDirection st currentScrollY)
      in if isOutOfBounds src currentScrollY then st
         else if frozen st then st\<lparr>lastKnownScrollY := currentScrollY\<rparr>
         else
           let st1 = (if js_le currentScrollY (offset st)
                      then top_headroom st else notTop st);
               st2 = (if js_ge (js_add currentScrollY (height src)) (scrollHeight src)
                      then bottom st1 else notBottom st1);
               st3 = (if shouldUnpin st2 currentScrollY tolExceeded then unpin st2
                      else if shouldPin st2 currentScrollY tolExceeded then pin st2
                      else st2)
           in st3\<lparr>lastKnownScrollY := currentScrollY\<rparr>)"

definition freeze :: "headroom \<Rightarrow> headroom" where
  "freeze st =
     st\<lparr>frozen := True,
        classList := add (classList st) (cls_frozen (classes st))\<rparr>"

definition unfreeze :: "headroom \<Rightarrow> headroom" where
  "unfreeze st =
     st\<lparr>frozen := False,
        classList := remove (classList st) (cls_frozen (classes st))\<rparr>"


section \<open>Vocabulary of the properties\<close>

text \<open>
  The class names of a configuration are well formed when the six state classes are
  different tokens, as the default names are. With two equal names a transition would
  remove the class it has just added, or one axis would write the class of another.
\<close>

definition distinct_classes :: "class_names \<Rightarrow> bool" where
  "distinct_classes c =
     distinct [cls_pinned c, cls_unpinned c, cls_top c, cls_notTop c,
               cls_bottom c, cls_notBottom c]"

text \<open>The weaker condition that the two names of each axis differ.\<close>

definition axis_pairs_distinct :: "class_names \<Rightarrow> bool" where
  "axis_pairs_distinct c =
     (cls_pinned c \<noteq> cls_unpinned c \<and> cls_top c \<noteq> cls_notTop c
      \<and> cls_bottom c \<noteq> cls_notBottom c)"

text \<open>The element carries both class names \<open>a\<close> and \<open>b\<close>.\<close>

definition carries_both :: "headroom \<Rightarrow> string \<Rightarrow> string \<Rightarrow> bool" where
  "carries_both st a b = (contains (classList st) a \<and> contains (classList st) b)"

text \<open>The six transitions by name, with the callback each one invokes.\<close>

datatype transition = Pin | Unpin | Top | NotTop | Bottom | NotBottom

fun transit :: "transition \<Rightarrow> headroom \<Rightarrow> headroom" where
  "transit Pin st = pin st"
| "transit Unpin st = unpin st"
| "transit Top st = top_headroom st"
| "transit NotTop st = notTop st"
| "transit Bottom st = bottom st"
| "transit NotBottom st = notBottom st"

fun callback_of :: "transition \<Rightarrow> callback" where
  "callback_of Pin = OnPin"
| "callback_of Unpin = OnUnpin"
| "callback_of Top = OnTop"
| "callback_of NotTop = OnNotTop"
| "callback_of Bottom = OnBottom"
| "callback_of NotBottom = OnNotBottom"

text \<open>A caller's operation on the instance, and a sequence of them run in order.\<close>

datatype operation = Tick reading | Do transition

fun perform :: "headroom \<Rightarrow> operation \<Rightarrow> headroom" where
  "perform st (Tick src) = update st src"
| "perform st (Do t) = transit t st"

definition run :: "headroom \<Rightarrow> operation list \<Rightarrow> headroom" where
  "run st ops = foldl perform st ops"

text \<open>The invocations of \<open>onPin\<close> and \<open>onUnpin\<close> in a log, in order.\<close>

definition pin_axis_calls :: "callback list \<Rightarrow> callback list" where
  "pin_axis_calls cs = filter (\<lambda>c. c = OnPin \<or> c = OnUnpin) cs"

text \<open>The callbacks that \<open>f\<close> invokes on \<open>st\<close>: what it appends to the log.\<close>

definition new_calls :: "headroom \<Rightarrow> headroom \<Rightarrow> callback list" where
  "new_calls st st' = drop (length (calls st)) (calls st')"

text \<open>The three axes as pairs of class names.\<close>

definition axis_pairs :: "class_names \<Rightarrow> (string \<times> string) list" where
  "axis_pairs c =
     [(cls_pinned c, cls_unpinned c), (cls_top c, cls_notTop c),
      (cls_bottom c, cls_notBottom c)]"

text \<open>The first invocation of \<open>onPin\<close> or \<open>onUnpin\<close> in a log, if there is one.\<close>

definition first_pin_axis_call :: "callback list \<Rightarrow> callback option" where
  "first_pin_axis_call cs = (case pin_axis_calls cs of [] \<Rightarrow> None | c # _ \<Rightarrow> Some c)"

text \<open>
  The state of the pin axis before the first \<open>pin()\<close> can take effect: either the
  element has neither class and neither callback was invoked, or \<open>onUnpin\<close> came first.
\<close>

definition before_first_pin :: "headroom \<Rightarrow> bool" where
  "before_first_pin st =
     ((\<not> contains (classList st) (cls_pinned (classes st))
       \<and> \<not> contains (classList st) (cls_unpinned (classes st))
       \<and> pin_axis_calls (calls st) = [])
      \<or> first_pin_axis_call (calls st) = Some OnUnpin)"




text \<open>The default options with all six callbacks given.\<close>

definition observed_options :: options where
  "observed_options =
     Headroom_options\<lparr>opt_onPin := True, opt_onUnpin := True, opt_onTop := True,
                      opt_onNotTop := True, opt_onBottom := True,
                      opt_onNotBottom := True\<rparr>"


text \<open>
  The instance the scenarios start from: an element with the initial class only, the
  default options, every callback given. The page has a viewport of 500 in a content of
  2000.
\<close>

definition fresh :: headroom where
  "fresh = Headroom [''headroom''] observed_options"

definition page :: "real \<Rightarrow> reading" where
  "page y = \<lparr>scrollY = Fin y, height = Fin 500, scrollHeight = Fin 2000\<rparr>"




section \<open>Basic facts\<close>

lemmas transition_defs =
  pin_def unpin_def top_headroom_def notTop_def bottom_def notBottom_def fire_def

lemmas setup_defs =
  fresh_def page_def Headroom_def observed_options_def Headroom_options_def default_classes_def
  normalizeTolerance_def

lemmas cycle_defs =
  update_def isOutOfBounds_def toleranceExceeded_def shouldUnpin_def shouldPin_def
  scrollDirection_def js_gt_def js_ge_def js_sub_def contains_def add_def remove_def
  Let_def

lemma js_lt_NaN [simp]: "js_lt a NaN = False" "js_lt NaN a = False"
  by (cases a; simp)+

lemma js_le_NaN [simp]: "js_le a NaN = False"
  by (cases a) simp_all

lemma js_eq_NaN [simp]: "js_eq a NaN = False"
  by (cases a) simp_all

lemma js_add_NaN [simp]: "js_add a NaN = NaN"
  by (cases a) simp_all

lemma transit_static [simp]:
  "classes (transit t st) = classes st"
  "offset (transit t st) = offset st"
  "lastKnownScrollY (transit t st) = lastKnownScrollY st"
  "tolerance (transit t st) = tolerance st"
  "frozen (transit t st) = frozen st"
  "onPin (transit t st) = onPin st"
  "onUnpin (transit t st) = onUnpin st"
  "onTop (transit t st) = onTop st"
  "onNotTop (transit t st) = onNotTop st"
  "onBottom (transit t st) = onBottom st"
  "onNotBottom (transit t st) = onNotBottom st"
  by (cases t; simp add: transition_defs)+

lemmas pin_static [simp] = transit_static [of Pin, simplified]
lemmas unpin_static [simp] = transit_static [of Unpin, simplified]
lemmas top_static [simp] = transit_static [of Top, simplified]
lemmas notTop_static [simp] = transit_static [of NotTop, simplified]
lemmas bottom_static [simp] = transit_static [of Bottom, simplified]
lemmas notBottom_static [simp] = transit_static [of NotBottom, simplified]

lemma js_eq_not_lt: "js_eq a b \<Longrightarrow> \<not> js_lt a b \<and> \<not> js_lt b a"
  by (cases a; cases b; simp)

lemma set_add [simp]: "set (add cl c) = insert c (set cl)"
  by (auto simp: add_def)

lemma set_remove [simp]: "set (remove cl c) = set cl - {c}"
  by (auto simp: remove_def)

lemma new_calls_append [simp]: "calls st' = calls st @ xs \<Longrightarrow> new_calls st st' = xs"
  by (simp add: new_calls_def)

lemma new_calls_same [simp]: "new_calls st st = []"
  by (simp add: new_calls_def)

lemma js_eq_le: "js_eq a b \<Longrightarrow> js_le b a \<and> \<not> js_lt b a"
  by (cases a; cases b; simp)

lemma calls_top: "calls (top_headroom st) =
    calls st @ (if onTop st \<and> \<not> contains (classList st) (cls_top (classes st)) then [OnTop] else [])"
  by (simp add: transition_defs)

lemma calls_notTop: "calls (notTop st) =
    calls st @ (if onNotTop st \<and> \<not> contains (classList st) (cls_notTop (classes st)) then [OnNotTop] else [])"
  by (simp add: transition_defs)

lemma calls_bottom: "calls (bottom st) =
    calls st @ (if onBottom st \<and> \<not> contains (classList st) (cls_bottom (classes st)) then [OnBottom] else [])"
  by (simp add: transition_defs)

lemma calls_notBottom: "calls (notBottom st) =
    calls st @ (if onNotBottom st \<and> \<not> contains (classList st) (cls_notBottom (classes st)) then [OnNotBottom] else [])"
  by (simp add: transition_defs)

lemma calls_pin: "calls (pin st) =
    calls st @ (if onPin st \<and> contains (classList st) (cls_unpinned (classes st)) then [OnPin] else [])"
  by (simp add: transition_defs)

lemma calls_unpin: "calls (unpin st) =
    calls st @ (if onUnpin st \<and> (contains (classList st) (cls_pinned (classes st))
                   \<or> \<not> contains (classList st) (cls_unpinned (classes st))) then [OnUnpin] else [])"
  by (simp add: transition_defs)

lemma classes_top: "set (classList (top_headroom st)) =
    (if contains (classList st) (cls_top (classes st)) then set (classList st)
     else insert (cls_top (classes st)) (set (classList st)) - {cls_notTop (classes st)})"
  by (simp add: transition_defs)

lemma classes_notTop: "set (classList (notTop st)) =
    (if contains (classList st) (cls_notTop (classes st)) then set (classList st)
     else insert (cls_notTop (classes st)) (set (classList st)) - {cls_top (classes st)})"
  by (simp add: transition_defs)

lemma classes_bottom: "set (classList (bottom st)) =
    (if contains (classList st) (cls_bottom (classes st)) then set (classList st)
     else insert (cls_bottom (classes st)) (set (classList st)) - {cls_notBottom (classes st)})"
  by (simp add: transition_defs)

lemma classes_notBottom: "set (classList (notBottom st)) =
    (if contains (classList st) (cls_notBottom (classes st)) then set (classList st)
     else insert (cls_notBottom (classes st)) (set (classList st)) - {cls_bottom (classes st)})"
  by (simp add: transition_defs)

lemma classes_pin: "set (classList (pin st)) =
    (if contains (classList st) (cls_unpinned (classes st))
     then insert (cls_pinned (classes st)) (set (classList st) - {cls_unpinned (classes st)})
     else set (classList st))"
  by (simp add: transition_defs)

lemma classes_unpin: "set (classList (unpin st)) =
    (if contains (classList st) (cls_pinned (classes st))
        \<or> \<not> contains (classList st) (cls_unpinned (classes st))
     then insert (cls_unpinned (classes st)) (set (classList st)) - {cls_pinned (classes st)}
     else set (classList st))"
  by (simp add: transition_defs)

lemmas calls_simps = calls_top calls_notTop calls_bottom calls_notBottom calls_pin calls_unpin
lemmas classes_simps = classes_top classes_notTop classes_bottom classes_notBottom classes_pin classes_unpin

lemma top_step_keeps:
  assumes "c \<noteq> cls_top (classes st)" and "c \<noteq> cls_notTop (classes st)"
  shows "(c \<in> set (classList (top_headroom st))) = (c \<in> set (classList st))"
    and "(c \<in> set (classList (notTop st))) = (c \<in> set (classList st))"
  using assms by (auto simp: classes_simps)

lemma bottom_step_keeps:
  assumes "c \<noteq> cls_bottom (classes st)" and "c \<noteq> cls_notBottom (classes st)"
  shows "(c \<in> set (classList (bottom st))) = (c \<in> set (classList st))"
    and "(c \<in> set (classList (notBottom st))) = (c \<in> set (classList st))"
  using assms by (auto simp: classes_simps)

lemma pin_step_keeps:
  assumes "c \<noteq> cls_pinned (classes st)" and "c \<noteq> cls_unpinned (classes st)"
  shows "(c \<in> set (classList (pin st))) = (c \<in> set (classList st))"
    and "(c \<in> set (classList (unpin st))) = (c \<in> set (classList st))"
  using assms by (auto simp: classes_simps)

lemma bottom_adds:
  "cls_bottom (classes st) \<noteq> cls_notBottom (classes st)
   \<Longrightarrow> cls_bottom (classes st) \<in> set (classList (bottom st))"
  by (auto simp: classes_simps contains_def)


section \<open>Out-of-bounds and frozen ticks\<close>

text \<open>
  C4. A reading that is out of bounds (its position is below 0, or position plus viewport
  height is above the content height) makes \<open>update\<close> return the instance as it was:
  the class list, the callback log and \<open>lastKnownScrollY\<close> are all unchanged.
\<close>

theorem update_out_of_bounds:
  assumes "js_lt (scrollY src) (Fin 0)
           \<or> js_gt (js_add (scrollY src) (height src)) (scrollHeight src)"
  shows "update st src = st"
  using assms by (simp add: update_def isOutOfBounds_def Let_def)

text \<open>Position \<open>-5\<close> with a viewport of 500 in a content of 2000.\<close>

theorem update_out_of_bounds_witness:
  "js_lt (Fin (- 5)) (Fin 0)
   \<and> update (Headroom [''headroom''] observed_options)
        \<lparr>scrollY = Fin (- 5), height = Fin 500, scrollHeight = Fin 2000\<rparr>
      = Headroom [''headroom''] observed_options"
  using update_out_of_bounds
    [of "\<lparr>scrollY = Fin (- 5), height = Fin 500, scrollHeight = Fin 2000\<rparr>"
        "Headroom [''headroom''] observed_options"]
  by simp

text \<open>
  C5. On an in-bounds tick of a frozen instance the only change is that
  \<open>lastKnownScrollY\<close> becomes the reading's position: the class list and the callback
  log are those of before.
\<close>

theorem update_frozen:
  assumes "frozen st" and "\<not> isOutOfBounds src (scrollY src)"
  shows "update st src = st\<lparr>lastKnownScrollY := scrollY src\<rparr>"
  using assms by (simp add: update_def Let_def)

text \<open>\<open>freeze()\<close>, then position 200.\<close>

theorem update_frozen_witness:
  "frozen (freeze (Headroom [''headroom''] observed_options))
   \<and> \<not> isOutOfBounds \<lparr>scrollY = Fin 200, height = Fin 500, scrollHeight = Fin 2000\<rparr>
         (Fin 200)
   \<and> update (freeze (Headroom [''headroom''] observed_options))
        \<lparr>scrollY = Fin 200, height = Fin 500, scrollHeight = Fin 2000\<rparr>
      = (freeze (Headroom [''headroom''] observed_options))\<lparr>lastKnownScrollY := Fin 200\<rparr>"
  using update_frozen
    [of "freeze (Headroom [''headroom''] observed_options)"
        "\<lparr>scrollY = Fin 200, height = Fin 500, scrollHeight = Fin 2000\<rparr>"]
  by (simp add: freeze_def isOutOfBounds_def js_gt_def Headroom_def)


section \<open>A NaN position\<close>

text \<open>
  C2, as the code has it. A reading whose position is NaN passes the out-of-bounds guard,
  since both of its comparisons are false. On a frozen instance \<open>lastKnownScrollY\<close>
  becomes NaN. Otherwise \<open>NaN <= offset\<close> and \<open>NaN + height >= scrollHeight\<close> are
  false, so \<open>notTop()\<close> and \<open>notBottom()\<close> run; neither \<open>unpin()\<close> nor \<open>pin()\<close>
  runs; and \<open>lastKnownScrollY\<close> becomes NaN.
\<close>

theorem update_NaN:
  assumes "scrollY src = NaN"
  shows "update st src =
           (if frozen st then st\<lparr>lastKnownScrollY := NaN\<rparr>
            else (notBottom (notTop st))\<lparr>lastKnownScrollY := NaN\<rparr>)"
  using assms
  by (simp add: update_def isOutOfBounds_def shouldUnpin_def shouldPin_def
        js_gt_def js_ge_def Let_def)

theorem update_NaN_witness:
  "scrollY \<lparr>scrollY = NaN, height = Fin 500, scrollHeight = Fin 2000\<rparr> = NaN
   \<and> update (Headroom [''headroom''] observed_options)
        \<lparr>scrollY = NaN, height = Fin 500, scrollHeight = Fin 2000\<rparr>
     = (notBottom (notTop (Headroom [''headroom''] observed_options)))
         \<lparr>lastKnownScrollY := NaN\<rparr>"
  using update_NaN
    [of "\<lparr>scrollY = NaN, height = Fin 500, scrollHeight = Fin 2000\<rparr>"
        "Headroom [''headroom''] observed_options"]
  by (simp add: Headroom_def)

text \<open>
  The tick is not a no-op. On a fresh instance with the default classes a NaN position
  adds the not-top and not-bottom classes, invokes \<open>onNotTop\<close> and \<open>onNotBottom\<close>, and
  leaves NaN in \<open>lastKnownScrollY\<close>.
\<close>

theorem update_NaN_counterexample:
  "update (Headroom [''headroom''] observed_options)
      \<lparr>scrollY = NaN, height = Fin 500, scrollHeight = Fin 2000\<rparr>
   = (Headroom [''headroom''] observed_options)
      \<lparr>lastKnownScrollY := NaN,
       classList := [''headroom'', ''headroom--not-top'', ''headroom--not-bottom''],
       calls := [OnNotTop, OnNotBottom]\<rparr>"
  by (simp add: cycle_defs transition_defs setup_defs)


section \<open>Construction takes every option\<close>

text \<open>
  C3, as the code has it. The constructor tests no option: whatever the merged options
  hold as offset is stored as the offset, and the tolerance is stored after
  \<open>normalizeTolerance\<close>, which turns a number into an object with that number in both
  fields and returns an object as it is. Nothing is rejected and nothing is clamped.
\<close>

theorem Headroom_stores_options:
  "offset (Headroom elem opts) = opt_offset opts
   \<and> tolerance (Headroom elem opts) = normalizeTolerance (opt_tolerance opts)
   \<and> normalizeTolerance (Scalar n) = \<lparr>down = n, up = n\<rparr>
   \<and> normalizeTolerance (Object t) = t"
  by (simp add: Headroom_def normalizeTolerance_def)

text \<open>An offset of \<open>-5\<close> and a tolerance of \<open>-3\<close> are taken as they are.\<close>

theorem Headroom_negative_counterexample:
  "offset (Headroom [''headroom'']
            (Headroom_options\<lparr>opt_offset := Fin (- 5),
                              opt_tolerance := Scalar (Fin (- 3))\<rparr>))
     = Fin (- 5)
   \<and> tolerance (Headroom [''headroom'']
            (Headroom_options\<lparr>opt_offset := Fin (- 5),
                              opt_tolerance := Scalar (Fin (- 3))\<rparr>))
     = \<lparr>down = Fin (- 3), up = Fin (- 3)\<rparr>"
  by (simp add: setup_defs)


section \<open>A tick at the position of the last one\<close>

text \<open>
  C1, as the code has it. On an in-bounds tick of an unfrozen instance whose position
  equals \<open>lastKnownScrollY\<close>, \<open>update\<close> classifies the direction as up. But
  \<open>shouldUnpin\<close> and \<open>shouldPin\<close> compare the positions again, strictly: neither
  \<open>scrollingDown\<close> nor \<open>scrollingUp\<close> holds, so the tolerance plays no part. The
  result of the tick is that of the top step, the bottom step and then \<open>pin()\<close> when the
  position is at most the offset (\<open>pin()\<close> itself acts only on an element that carries
  the unpinned class), and that of the top and the bottom step alone when the position is
  above the offset: then neither \<open>pin()\<close> nor \<open>unpin()\<close> is applied.
\<close>

theorem equal_position_tick:
  assumes "js_eq (scrollY src) (lastKnownScrollY st)"
    and "\<not> isOutOfBounds src (scrollY src)" and "\<not> frozen st"
  shows "scrollDirection st (scrollY src) = Up
         \<and> update st src =
             (let st1 = (if js_le (scrollY src) (offset st)
                         then top_headroom st else notTop st);
                  st2 = (if js_ge (js_add (scrollY src) (height src)) (scrollHeight src)
                         then bottom st1 else notBottom st1);
                  st3 = (if js_le (scrollY src) (offset st) then pin st2 else st2)
              in st3\<lparr>lastKnownScrollY := scrollY src\<rparr>)"
  using assms js_eq_not_lt [OF assms(1)]
  by (simp add: update_def scrollDirection_def shouldUnpin_def shouldPin_def
        js_gt_def Let_def)

text \<open>Position 50 again, after a tick at position 50.\<close>

theorem equal_position_tick_witness:
  "js_eq (scrollY (page 50)) (lastKnownScrollY (update fresh (page 50)))
   \<and> \<not> isOutOfBounds (page 50) (scrollY (page 50))
   \<and> \<not> frozen (update fresh (page 50))
   \<and> scrollDirection (update fresh (page 50)) (scrollY (page 50)) = Up
   \<and> update (update fresh (page 50)) (page 50) = update fresh (page 50)"
  using equal_position_tick [of "page 50" "update fresh (page 50)"]
  by (simp add: cycle_defs transition_defs setup_defs)

text \<open>
  With both tolerances 0 and offset 0, a second tick at position 50 meets the tolerance
  for the up direction (\<open>|50 - 50| >= 0\<close>) and is above the offset; the element is
  unpinned before the tick and still unpinned after it, and no callback is invoked.
\<close>

theorem equal_position_counterexample:
  "js_eq (scrollY (page 50)) (lastKnownScrollY (update fresh (page 50)))
   \<and> \<not> isOutOfBounds (page 50) (scrollY (page 50))
   \<and> \<not> frozen (update fresh (page 50))
   \<and> tolerance (update fresh (page 50)) = \<lparr>down = Fin 0, up = Fin 0\<rparr>
   \<and> toleranceExceeded (update fresh (page 50)) (scrollY (page 50)) Up
   \<and> js_gt (scrollY (page 50)) (offset (update fresh (page 50)))
   \<and> classList (update fresh (page 50))
       = [''headroom'', ''headroom--not-top'', ''headroom--not-bottom'', ''headroom--unpinned'']
   \<and> classList (update (update fresh (page 50)) (page 50))
       = [''headroom'', ''headroom--not-top'', ''headroom--not-bottom'', ''headroom--unpinned'']
   \<and> calls (update (update fresh (page 50)) (page 50)) = calls (update fresh (page 50))"
  by (simp add: cycle_defs transition_defs setup_defs)


section \<open>Idempotent transitions\<close>

text \<open>
  C6, as the code has it. For a configuration in which the two class names of each axis
  differ, each of
  \<open>pin\<close>, \<open>unpin\<close>, \<open>top\<close>, \<open>notTop\<close>, \<open>bottom\<close> and \<open>notBottom\<close> is idempotent:
  the second of two calls in a row returns the instance as the first call left it (so it
  invokes no callback), and the two calls together invoke the transition's callback at
  most once.
\<close>

theorem transition_idempotent:
  assumes "axis_pairs_distinct (classes st)"
  shows "transit t (transit t st) = transit t st
         \<and> (new_calls st (transit t (transit t st)) = []
              \<or> new_calls st (transit t (transit t st)) = [callback_of t])"
  using assms
  by (cases t; auto simp: transition_defs axis_pairs_distinct_def contains_def new_calls_def)

theorem transition_idempotent_witness:
  "axis_pairs_distinct (classes fresh)
   \<and> transit Unpin (transit Unpin fresh) = transit Unpin fresh
   \<and> new_calls fresh (transit Unpin (transit Unpin fresh)) = [callback_of Unpin]"
  using transition_idempotent [of fresh Unpin]
  by (simp add: transition_defs setup_defs axis_pairs_distinct_def contains_def
        add_def remove_def new_calls_def)

text \<open>
  The condition on the names is needed: with the same name for top and not-top,
  \<open>top()\<close> removes the class it has just added, and a second call invokes \<open>onTop\<close>
  again.
\<close>

theorem transition_idempotent_counterexample:
  "\<not> axis_pairs_distinct (default_classes\<lparr>cls_notTop := ''headroom--top''\<rparr>)
   \<and> calls (transit Top (fresh\<lparr>classes := default_classes\<lparr>cls_notTop := ''headroom--top''\<rparr>\<rparr>))
       = [OnTop]
   \<and> calls (transit Top (transit Top
              (fresh\<lparr>classes := default_classes\<lparr>cls_notTop := ''headroom--top''\<rparr>\<rparr>)))
       = [OnTop, OnTop]"
  by (simp add: transition_defs setup_defs contains_def add_def remove_def
        axis_pairs_distinct_def)


section \<open>The bottom boundary\<close>

text \<open>
  C7, as the code has it. Let the class names be pairwise different and the instance not
  frozen. For a
  reading with position at least 0 and position plus viewport height equal to the content
  height, the reading is in bounds, the element carries the bottom class after
  \<open>update\<close>, and among the callbacks of the bottom axis the tick invokes \<open>onBottom\<close>,
  once, exactly when that callback is given and the element did not carry the bottom
  class before; \<open>onNotBottom\<close> is not invoked.
\<close>

theorem bottom_boundary_inclusive:
  assumes "distinct_classes (classes st)"
    and "js_eq (js_add (scrollY src) (height src)) (scrollHeight src)"
    and "js_ge (scrollY src) (Fin 0)"
    and "\<not> frozen st"
  shows "\<not> isOutOfBounds src (scrollY src)
         \<and> contains (classList (update st src)) (cls_bottom (classes st))
         \<and> filter (\<lambda>c. c = OnBottom \<or> c = OnNotBottom) (new_calls st (update st src))
             = (if onBottom st \<and> \<not> contains (classList st) (cls_bottom (classes st))
                then [OnBottom] else [])"
proof -
  define y where "y = scrollY src"
  define b where "b = cls_bottom (classes st)"
  define st1 where "st1 = (if js_le y (offset st) then top_headroom st else notTop st)"
  define st2 where "st2 = bottom st1"
  define te where "te = toleranceExceeded st y (scrollDirection st y)"
  define st3 where "st3 = (if shouldUnpin st2 y te then unpin st2
                           else if shouldPin st2 y te then pin st2 else st2)"
  have ge: "js_ge (js_add y (height src)) (scrollHeight src)"
    and ngt: "\<not> js_gt (js_add y (height src)) (scrollHeight src)"
    using js_eq_le [OF assms(2)] by (simp_all add: js_ge_def js_gt_def y_def)
  have nlt: "\<not> js_lt y (Fin 0)"
    using assms(3) by (cases "scrollY src") (simp_all add: js_ge_def y_def)
  have inb: "\<not> isOutOfBounds src y"
    using ngt nlt by (simp add: isOutOfBounds_def)
  have upd: "update st src = st3\<lparr>lastKnownScrollY := y\<rparr>"
    using inb ge assms(4)
    by (simp add: update_def Let_def y_def st1_def st2_def st3_def te_def)
  have cl1: "classes st1 = classes st" and on1: "onBottom st1 = onBottom st"
    by (simp_all add: st1_def)
  have cl2: "classes st2 = classes st"
    by (simp add: st2_def cl1)
  have dist: "b \<noteq> cls_top (classes st)" "b \<noteq> cls_notTop (classes st)"
    "b \<noteq> cls_pinned (classes st)" "b \<noteq> cls_unpinned (classes st)"
    "b \<noteq> cls_notBottom (classes st)"
    using assms(1) by (auto simp: distinct_classes_def b_def)
  have mem1: "(b \<in> set (classList st1)) = (b \<in> set (classList st))"
    using top_step_keeps [OF dist(1,2)] by (simp add: st1_def)
  have mem2: "b \<in> set (classList st2)"
    using bottom_adds [of st1] dist(5) by (simp add: st2_def b_def cl1)
  have mem3: "b \<in> set (classList st3)"
    using mem2 pin_step_keeps [of b st2] dist(3,4) by (simp add: st3_def cl2)
  have "\<exists>xs. calls st1 = calls st @ xs
             \<and> filter (\<lambda>c. c = OnBottom \<or> c = OnNotBottom) xs = []"
    by (simp add: st1_def calls_simps)
  then obtain xs1 where c1: "calls st1 = calls st @ xs1"
    and f1: "filter (\<lambda>c. c = OnBottom \<or> c = OnNotBottom) xs1 = []"
    by blast
  have c2: "calls st2 = calls st1 @ (if onBottom st \<and> b \<notin> set (classList st) then [OnBottom] else [])"
    by (simp add: st2_def calls_simps contains_def cl1 on1 mem1 flip: b_def)
  have "\<exists>xs. calls st3 = calls st2 @ xs
             \<and> filter (\<lambda>c. c = OnBottom \<or> c = OnNotBottom) xs = []"
    by (simp add: st3_def calls_simps)
  then obtain xs3 where c3: "calls st3 = calls st2 @ xs3"
    and f3: "filter (\<lambda>c. c = OnBottom \<or> c = OnNotBottom) xs3 = []"
    by blast
  have "new_calls st (update st src)
        = xs1 @ (if onBottom st \<and> b \<notin> set (classList st) then [OnBottom] else []) @ xs3"
    by (simp add: upd c1 c2 c3 new_calls_def)
  then show ?thesis
    using inb mem3 f1 f3 by (simp add: upd contains_def y_def b_def)
qed

text \<open>Position 1500: \<open>1500 + 500 = 2000\<close>.\<close>

theorem bottom_boundary_inclusive_witness:
  "distinct_classes (classes fresh)
   \<and> js_eq (js_add (scrollY (page 1500)) (height (page 1500))) (scrollHeight (page 1500))
   \<and> js_ge (scrollY (page 1500)) (Fin 0)
   \<and> \<not> frozen fresh
   \<and> \<not> isOutOfBounds (page 1500) (scrollY (page 1500))
   \<and> contains (classList (update fresh (page 1500))) (cls_bottom (classes fresh))
   \<and> filter (\<lambda>c. c = OnBottom \<or> c = OnNotBottom) (new_calls fresh (update fresh (page 1500)))
       = [OnBottom]"
  using bottom_boundary_inclusive [of fresh "page 1500"]
  by (simp add: setup_defs distinct_classes_def js_ge_def contains_def)

text \<open>
  The condition on the names is needed: if the bottom class has the name of the pinned
  class, the tick to the bottom of the page adds it in \<open>bottom()\<close> and takes it away
  again in \<open>unpin()\<close>, and the element ends without it.
\<close>

theorem bottom_boundary_counterexample:
  "js_eq (js_add (scrollY (page 1500)) (height (page 1500))) (scrollHeight (page 1500))
   \<and> js_ge (scrollY (page 1500)) (Fin 0)
   \<and> \<not> frozen (fresh\<lparr>classes := default_classes\<lparr>cls_bottom := ''headroom--pinned''\<rparr>\<rparr>)
   \<and> classList (update (fresh\<lparr>classes := default_classes\<lparr>cls_bottom := ''headroom--pinned''\<rparr>\<rparr>)
                  (page 1500))
       = [''headroom'', ''headroom--not-top'', ''headroom--unpinned'']
   \<and> \<not> contains
         (classList (update (fresh\<lparr>classes := default_classes\<lparr>cls_bottom := ''headroom--pinned''\<rparr>\<rparr>)
                       (page 1500)))
         (cls_bottom (default_classes\<lparr>cls_bottom := ''headroom--pinned''\<rparr>))"
  by (simp add: cycle_defs transition_defs setup_defs)


section \<open>Tolerance\<close>












section \<open>One class of each axis\<close>

lemma carries_both_last [simp]:
  "carries_both (st\<lparr>lastKnownScrollY := y\<rparr>) a b = carries_both st a b"
  by (simp add: carries_both_def)

lemma transit_exclusive:
  assumes "distinct_classes (classes st)"
    and "(a, b) \<in> set (axis_pairs (classes st))"
    and "\<not> carries_both st a b"
  shows "\<not> carries_both (transit t st) a b"
  using assms
  by (cases t; auto simp: axis_pairs_def distinct_classes_def carries_both_def contains_def
        classes_simps split: if_splits)


lemma update_static [simp]:
  "classes (update st src) = classes st"
  "onUnpin (update st src) = onUnpin st"
  by (simp_all add: update_def Let_def)

lemma update_exclusive:
  assumes "distinct_classes (classes st)"
    and "(a, b) \<in> set (axis_pairs (classes st))"
    and "\<not> carries_both st a b"
  shows "\<not> carries_both (update st src) a b"
proof -
  have step: "\<not> carries_both (transit t s) a b"
    if "classes s = classes st" and "\<not> carries_both s a b" for t s
    using transit_exclusive [of s a b t] assms(1,2) that by simp
  note steps = step [where t = Pin, simplified] step [where t = Unpin, simplified]
    step [where t = Top, simplified] step [where t = NotTop, simplified]
    step [where t = Bottom, simplified] step [where t = NotBottom, simplified]
  show ?thesis
    using assms(3) by (simp add: update_def Let_def steps)
qed

lemma perform_exclusive:
  assumes "distinct_classes (classes st)"
    and "(a, b) \<in> set (axis_pairs (classes st))"
    and "\<not> carries_both st a b"
  shows "\<not> carries_both (perform st x) a b" and "classes (perform st x) = classes st"
  using assms by (cases x; simp add: update_exclusive transit_exclusive)+

text \<open>
  C9, as the code has it. Let the six class names be pairwise different, and take one of
  the three axes. If
  the element does not carry both classes of that axis, then after any sequence of
  \<open>update\<close>, \<open>pin\<close>, \<open>unpin\<close>, \<open>top\<close>, \<open>notTop\<close>, \<open>bottom\<close> and \<open>notBottom\<close>
  it does not carry both either.
\<close>

theorem class_pairs_exclusive:
  assumes "distinct_classes (classes st)"
    and "(a, b) \<in> set (axis_pairs (classes st))"
    and "\<not> carries_both st a b"
  shows "\<not> carries_both (run st ops) a b"
  using assms unfolding run_def
proof (induction ops arbitrary: st)
  case Nil
  then show ?case by simp
next
  case (Cons x ops)
  have "\<not> carries_both (foldl perform (perform st x) ops) a b"
    using Cons.prems perform_exclusive [of st a b x]
    by (intro Cons.IH) simp_all
  then show ?case by simp
qed

theorem class_pairs_exclusive_witness:
  "distinct_classes (classes fresh)
   \<and> (''headroom--pinned'', ''headroom--unpinned'') \<in> set (axis_pairs (classes fresh))
   \<and> \<not> carries_both fresh ''headroom--pinned'' ''headroom--unpinned''
   \<and> \<not> carries_both (run fresh [Tick (page 50), Do Pin, Tick (page 60), Do Top, Tick (page 10)])
          ''headroom--pinned'' ''headroom--unpinned''"
  using class_pairs_exclusive
    [of fresh "''headroom--pinned''" "''headroom--unpinned''"
        "[Tick (page 50), Do Pin, Tick (page 60), Do Top, Tick (page 10)]"]
  by (simp add: setup_defs distinct_classes_def axis_pairs_def carries_both_def contains_def)

text \<open>
  The names have to differ across the axes too: if the top class has the name of the
  pinned class, \<open>top()\<close> on an unpinned element leaves it with both classes of the pin
  axis.
\<close>

theorem class_pairs_exclusive_counterexample:
  "\<not> carries_both
       (fresh\<lparr>classes := default_classes\<lparr>cls_top := ''headroom--pinned''\<rparr>,
              classList := [''headroom'', ''headroom--unpinned'']\<rparr>)
       ''headroom--pinned'' ''headroom--unpinned''
   \<and> carries_both
       (run (fresh\<lparr>classes := default_classes\<lparr>cls_top := ''headroom--pinned''\<rparr>,
                   classList := [''headroom'', ''headroom--unpinned'']\<rparr>) [Do Top])
       ''headroom--pinned'' ''headroom--unpinned''"
  by (simp add: run_def transition_defs setup_defs carries_both_def contains_def add_def
        remove_def)


section \<open>The first callback of the pin axis\<close>

lemma first_pin_axis_call_append:
  "first_pin_axis_call (cs @ ds) =
     (case first_pin_axis_call cs of None \<Rightarrow> first_pin_axis_call ds | Some c \<Rightarrow> Some c)"
  by (simp add: first_pin_axis_call_def pin_axis_calls_def split: list.splits)

lemma before_first_pin_last [simp]:
  "before_first_pin (st\<lparr>lastKnownScrollY := y\<rparr>) = before_first_pin st"
  by (simp add: before_first_pin_def)

lemma transit_before_first_pin:
  assumes "distinct_classes (classes st)" and "onUnpin st" and "before_first_pin st"
  shows "before_first_pin (transit t st)"
  using assms
  by (cases t; auto simp: before_first_pin_def distinct_classes_def contains_def
        classes_simps calls_simps first_pin_axis_call_append pin_axis_calls_def
        first_pin_axis_call_def split: if_splits list.splits)


lemma update_before_first_pin:
  assumes "distinct_classes (classes st)" and "onUnpin st" and "before_first_pin st"
  shows "before_first_pin (update st src)"
proof -
  have step: "before_first_pin (transit t s)"
    if "classes s = classes st" and "onUnpin s" and "before_first_pin s" for t s
    using transit_before_first_pin [of s t] assms(1) that by simp
  note steps = step [where t = Pin, simplified] step [where t = Unpin, simplified]
    step [where t = Top, simplified] step [where t = NotTop, simplified]
    step [where t = Bottom, simplified] step [where t = NotBottom, simplified]
  show ?thesis
    using assms(2,3) by (simp add: update_def Let_def steps)
qed

lemma updates_before_first_pin:
  assumes "distinct_classes (classes st)" and "onUnpin st" and "before_first_pin st"
  shows "before_first_pin (foldl update st srcs)"
  using assms
proof (induction srcs arbitrary: st)
  case Nil
  then show ?case by simp
next
  case (Cons src srcs)
  have "before_first_pin (foldl update (update st src) srcs)"
    using Cons.prems update_before_first_pin [of st src]
    by (intro Cons.IH) simp_all
  then show ?case by simp
qed

text \<open>
  C10, as the code has it. Let the class names be pairwise different and let an
  \<open>onUnpin\<close> callback be given. From an instance whose element carries neither the
  pinned nor the unpinned class and whose log is empty, no sequence of \<open>update\<close> calls
  makes \<open>onPin\<close> the first callback of the pin axis: an invocation of \<open>onPin\<close> is
  always preceded by one of \<open>onUnpin\<close>.
\<close>

theorem onPin_not_first:
  assumes "distinct_classes (classes st)" and "onUnpin st"
    and "\<not> contains (classList st) (cls_pinned (classes st))"
    and "\<not> contains (classList st) (cls_unpinned (classes st))"
    and "calls st = []"
  shows "first_pin_axis_call (calls (foldl update st srcs)) \<noteq> Some OnPin"
proof -
  have "before_first_pin st"
    using assms(3-5) by (simp add: before_first_pin_def pin_axis_calls_def)
  then have "before_first_pin (foldl update st srcs)"
    using assms(1,2) by (rule updates_before_first_pin [rotated 2])
  then show ?thesis
    by (auto simp: before_first_pin_def first_pin_axis_call_def)
qed

theorem onPin_not_first_witness:
  "distinct_classes (classes fresh) \<and> onUnpin fresh
   \<and> \<not> contains (classList fresh) (cls_pinned (classes fresh))
   \<and> \<not> contains (classList fresh) (cls_unpinned (classes fresh))
   \<and> calls fresh = []
   \<and> first_pin_axis_call (calls (foldl update fresh [page 50, page 10])) \<noteq> Some OnPin"
  using onPin_not_first [of fresh "[page 50, page 10]"]
  by (simp add: setup_defs distinct_classes_def contains_def)

text \<open>
  The callbacks are optional. With \<open>onPin\<close> given and \<open>onUnpin\<close> not, a tick at
  position 50 lets \<open>unpin()\<close> add the unpinned class without invoking anything, and the
  tick at position 10 that follows invokes \<open>onPin\<close>, the first callback of the pin axis.
\<close>

theorem onPin_first_counterexample:
  "\<not> contains (classList (Headroom [''headroom''] (Headroom_options\<lparr>opt_onPin := True\<rparr>)))
        ''headroom--pinned''
   \<and> \<not> contains (classList (Headroom [''headroom''] (Headroom_options\<lparr>opt_onPin := True\<rparr>)))
        ''headroom--unpinned''
   \<and> calls (foldl update (Headroom [''headroom''] (Headroom_options\<lparr>opt_onPin := True\<rparr>))
              [page 50, page 10])
     = [OnPin]"
  by (simp add: cycle_defs transition_defs setup_defs)

end
